theory Spec2Isabelle
  imports Complex_Main
begin

section \<open>JavaScript values\<close>

text \<open>
  The filter options and the feed records hold JavaScript values. A number is an IEEE
  double: a finite value (modelled by a real; \<open>-0\<close> and \<open>0\<close> are both \<open>Finite 0\<close>),
  \<open>NaN\<close> (what \<open>parseFloat\<close> gives on an emptied input field, and what \<open>0 / 0\<close>
  gives) or an infinity (what \<open>Math.max()\<close> of no arguments gives).
\<close>

datatype jsnumber = Finite real | NaN | PosInfinity | NegInfinity

datatype jsvalue = JUndefined | JNull | JBool bool | JNumber jsnumber | JString string

text \<open>The truthiness test of \<open>if (v)\<close> and of \<open>v || d\<close>.\<close>

fun truthy :: "jsvalue \<Rightarrow> bool" where
  "truthy JUndefined = False"
| "truthy JNull = False"
| "truthy (JBool b) = b"
| "truthy (JNumber (Finite r)) = (r \<noteq> 0)"
| "truthy (JNumber NaN) = False"
| "truthy (JNumber PosInfinity) = True"
| "truthy (JNumber NegInfinity) = True"
| "truthy (JString s) = (s \<noteq> [])"

section \<open>The query builder (\<open>buildUSGSQuery\<close>)\<close>

text \<open>
  The object passed as \<open>filterOptions\<close>. A field the object does not have reads as
  \<open>JUndefined\<close>.
\<close>

record filterOptions =
  timeRange :: jsvalue
  minMagnitude :: jsvalue
  maxMagnitude :: jsvalue
  limit :: jsvalue
  minDepth :: jsvalue
  maxDepth :: jsvalue
  latitude :: jsvalue
  longitude :: jsvalue
  radius :: jsvalue

text \<open>
  A value appended to the \<open>URLSearchParams\<close>: a string literal of the source, a
  JavaScript value (which \<open>append\<close> converts to its string), or the
  \<open>toISOString()\<close> of the date with the given epoch milliseconds.
\<close>

datatype qvalue = Text string | Value jsvalue | IsoTime int

type_synonym query = "string \<times> (string \<times> qvalue) list"

definition baseUrl :: string where
  "baseUrl = ''https://earthquake.usgs.gov/fdsnws/event/1/query''"

text \<open>The \<open>switch\<close> on \<open>filterOptions.timeRange\<close> (strict equality with each label).\<close>

definition startTime :: "int \<Rightarrow> jsvalue \<Rightarrow> int" where
  "startTime now tr =
     (if tr = JString ''hour'' then now - 60 * 60 * 1000
      else if tr = JString ''day'' then now - 24 * 60 * 60 * 1000
      else if tr = JString ''week'' then now - 7 * 24 * 60 * 60 * 1000
      else if tr = JString ''month'' then now - 30 * 24 * 60 * 60 * 1000
      else now - 24 * 60 * 60 * 1000)"

text \<open>\<open>if (v) query.append(k, v)\<close>\<close>

definition append_if :: "string \<Rightarrow> jsvalue \<Rightarrow> (string \<times> qvalue) list" where
  "append_if k v = (if truthy v then [(k, Value v)] else [])"

text \<open>
  \<open>buildUSGSQuery\<close>, with the clock reading \<open>new Date()\<close> passed in as \<open>now\<close>
  (epoch milliseconds). The result is the base URL and the parameters in the order in
  which they are appended; the source joins them as \<open>baseUrl ? query.toString()\<close>.
\<close>

definition buildUSGSQuery :: "int \<Rightarrow> filterOptions \<Rightarrow> query" where
  "buildUSGSQuery now filterOptions =
     (baseUrl,
      [(''format'', Text ''geojson''),
       (''limit'', Value (if truthy (limit filterOptions) then limit filterOptions
                          else JNumber (Finite 100)))]
      @ [(''starttime'', IsoTime (startTime now (timeRange filterOptions)))]
      @ [(''endtime'', IsoTime now)]
      @ append_if ''minmagnitude'' (minMagnitude filterOptions)
      @ append_if ''maxmagnitude'' (maxMagnitude filterOptions)
      @ append_if ''mindepth'' (minDepth filterOptions)
      @ append_if ''maxdepth'' (maxDepth filterOptions)
      @ append_if ''latitude'' (latitude filterOptions)
      @ append_if ''longitude'' (longitude filterOptions)
      @ append_if ''maxradiuskm'' (radius filterOptions)
      @ [(''orderby'', Text ''time'')])"

text \<open>\<open>URLSearchParams.getAll\<close>: every value appended under a name, in order.\<close>

definition getAll :: "string \<Rightarrow> query \<Rightarrow> qvalue list" where
  "getAll k q = map snd (filter (\<lambda>p. fst p = k) (snd q))"

section \<open>The feed records\<close>

text \<open>
  One feature of the feed, with the fields the aggregations read: \<open>mag\<close> is
  \<open>properties.mag\<close>, \<open>time\<close> is \<open>properties.time\<close> (epoch milliseconds),
  \<open>depth\<close> is \<open>geometry.coordinates[2]\<close>. \<open>None\<close> is \<open>null\<close> or an absent
  field: the source tests both with \<open>!= null\<close>. The feed is JSON, so a number that is
  present is never \<open>NaN\<close>; it is modelled by a real, and the comparisons of the source
  against the constants 4, 5, 6, 7, 70 and 300 are the comparisons of the reals.
\<close>

record feature =
  fid :: string
  mag :: "real option"
  place :: string
  time :: int
  depth :: "real option"

section \<open>Dashboard: \<open>recentEarthquakes\<close> and \<open>getStats\<close>\<close>

text \<open>
  \<open>earthquakeData.sort((a, b) => b.properties.time - a.properties.time).slice(0, 10)\<close>.
  \<open>Array.prototype.sort\<close> is stable and sorts the array it is called on in place, and
  returns that array. The model returns the pair of the array \<open>earthquakeData\<close> as it
  is after the statement, and of the value of \<open>recentEarthquakes\<close>.
\<close>

definition sort_desc_time :: "feature list \<Rightarrow> feature list" where
  "sort_desc_time xs = sort_key (\<lambda>eq. - time eq) xs"

definition recentEarthquakes :: "feature list \<Rightarrow> feature list \<times> feature list" where
  "recentEarthquakes earthquakeData =
     (let sorted = sort_desc_time earthquakeData
      in (sorted, take 10 sorted))"

text \<open>\<open>getMagnitudeColor\<close>: the colour of the band of a magnitude.\<close>

definition getMagnitudeColor :: "real \<Rightarrow> string" where
  "getMagnitudeColor magnitude =
     (if magnitude \<ge> 7 then ''#e74c3c''
      else if magnitude \<ge> 6 then ''#f39c12''
      else if magnitude \<ge> 5 then ''#f1c40f''
      else if magnitude \<ge> 4 then ''#27ae60''
      else ''#3498db'')"

text \<open>\<open>Math.max(...xs)\<close>: with no argument it is \<open>-Infinity\<close>.\<close>

fun Math_max :: "real list \<Rightarrow> jsnumber" where
  "Math_max [] = NegInfinity"
| "Math_max (x # xs) = Finite (fold max xs x)"

text \<open>The division \<open>s / n\<close> of a finite sum by a length.\<close>

definition js_divide :: "real \<Rightarrow> nat \<Rightarrow> jsnumber" where
  "js_divide s n =
     (if n = 0 then (if s = 0 then NaN else if 0 < s then PosInfinity else NegInfinity)
      else Finite (s / real n))"

text \<open>
  A field of the object that \<open>getStats\<close> returns: a number, or the string that
  \<open>x.toFixed(1)\<close> gives for the number \<open>x\<close>.
\<close>

datatype statvalue = NumberValue jsnumber | ToFixed1 jsnumber

record stats =
  total :: nat
  largest :: statvalue
  averageMagnitude :: statvalue
  last24Hours :: nat

definition magnitudes_of :: "feature list \<Rightarrow> real list" where
  "magnitudes_of earthquakeData =
     map the (filter (\<lambda>mag. mag \<noteq> None) (map mag earthquakeData))"

text \<open>
  \<open>getStats\<close>, with the clock reading \<open>Date.now()\<close> passed in as \<open>now\<close>. The sum
  of the magnitudes is taken over the reals.
\<close>

definition getStats :: "int \<Rightarrow> feature list \<Rightarrow> stats" where
  "getStats now earthquakeData =
     (if length earthquakeData = 0 then
        \<lparr>total = 0, largest = NumberValue (Finite 0),
         averageMagnitude = NumberValue (Finite 0), last24Hours = 0\<rparr>
      else
        let magnitudes = magnitudes_of earthquakeData;
            largest = Math_max magnitudes;
            averageMagnitude =
              js_divide (foldl (\<lambda>sum mag. sum + mag) 0 magnitudes) (length magnitudes);
            last24Hours =
              length (filter (\<lambda>eq. now - time eq < 24 * 60 * 60 * 1000) earthquakeData)
        in \<lparr>total = length earthquakeData, largest = ToFixed1 largest,
            averageMagnitude = ToFixed1 averageMagnitude, last24Hours = last24Hours\<rparr>)"

section \<open>Statistics: the band counts\<close>

text \<open>The tests of the \<open>filter\<close> calls of \<open>getMagnitudeStats\<close>.\<close>

definition minor_band :: "real \<Rightarrow> bool" where "minor_band m = (m < 4)"
definition light_band :: "real \<Rightarrow> bool" where "light_band m = (m \<ge> 4 \<and> m < 5)"
definition moderate_band :: "real \<Rightarrow> bool" where "moderate_band m = (m \<ge> 5 \<and> m < 6)"
definition strong_band :: "real \<Rightarrow> bool" where "strong_band m = (m \<ge> 6 \<and> m < 7)"
definition major_band :: "real \<Rightarrow> bool" where "major_band m = (m \<ge> 7)"

text \<open>The tests of the \<open>filter\<close> calls of \<open>getDepthDistribution\<close>.\<close>

definition shallow_band :: "real \<Rightarrow> bool" where "shallow_band d = (d < 70)"
definition intermediate_band :: "real \<Rightarrow> bool" where "intermediate_band d = (d \<ge> 70 \<and> d < 300)"
definition deep_band :: "real \<Rightarrow> bool" where "deep_band d = (d \<ge> 300)"

record magnitudeStats =
  minor :: nat
  light :: nat
  moderate :: nat
  strong :: nat
  major :: nat

record depthStats =
  shallow :: nat
  intermediate :: nat
  deep :: nat

definition depths_of :: "feature list \<Rightarrow> real list" where
  "depths_of earthquakeData =
     map the (filter (\<lambda>depth. depth \<noteq> None) (map depth earthquakeData))"

text \<open>Both functions return the empty object \<open>{}\<close>, here \<open>None\<close>, on empty data.\<close>

definition getDepthDistribution :: "feature list \<Rightarrow> depthStats option" where
  "getDepthDistribution earthquakeData =
     (if length earthquakeData = 0 then None
      else
        let depths = depths_of earthquakeData
        in Some \<lparr>shallow = length (filter shallow_band depths),
                 intermediate = length (filter intermediate_band depths),
                 deep = length (filter deep_band depths)\<rparr>)"

definition getMagnitudeStats :: "feature list \<Rightarrow> magnitudeStats option" where
  "getMagnitudeStats earthquakeData =
     (if length earthquakeData = 0 then None
      else
        let magnitudes = magnitudes_of earthquakeData
        in Some \<lparr>minor = length (filter minor_band magnitudes),
                 light = length (filter light_band magnitudes),
                 moderate = length (filter moderate_band magnitudes),
                 strong = length (filter strong_band magnitudes),
                 major = length (filter major_band magnitudes)\<rparr>)"

text \<open>
  What the page shows for a count: \<open>magnitudeStats.minor || 0\<close>, which is 0 for a field
  of the empty object and the count itself otherwise.
\<close>

definition shown :: "('r \<Rightarrow> nat) \<Rightarrow> 'r option \<Rightarrow> nat" where
  "shown field r = (case r of None \<Rightarrow> 0 | Some s \<Rightarrow> field s)"

section \<open>Statistics: the magnitude histogram\<close>

record bin =
  x0 :: real
  x1 :: real
  members :: "real list"

text \<open>
  Modelled from the spec: \<open>d3.bin().domain([lo, hi]).thresholds(n)\<close> belongs to the d3
  library, which is not under src/. Following the spec's description of the histogram,
  it cuts the domain into \<open>n\<close> bins of equal width; a bin holds the values of its
  half-open interval \<open>[x0, x1)\<close>, and the last bin also holds the upper end of the
  domain.
\<close>

definition d3_bin :: "real \<Rightarrow> real \<Rightarrow> nat \<Rightarrow> real list \<Rightarrow> bin list" where
  "d3_bin lo hi n xs =
     map (\<lambda>i. let a = lo + real i * ((hi - lo) / real n);
                   b = lo + real (Suc i) * ((hi - lo) / real n)
               in \<lparr>x0 = a, x1 = b,
                   members = filter (\<lambda>x. a \<le> x \<and> (x < b \<or> (Suc i = n \<and> x \<le> b))) xs\<rparr>)
         [0..<n]"

text \<open>
  The \<open>bins\<close> of the chart effect. The effect starts with
  \<open>if (!chartRef.current || loading || !earthquakeData.length) return;\<close>: when the
  chart element is not mounted, while the data is loading, or on empty data, no bins
  are computed (\<open>None\<close>). Otherwise the bins are the magnitudes that are not null,
  binned over [0, 10] with 20 thresholds.
\<close>

definition bins :: "bool \<Rightarrow> bool \<Rightarrow> feature list \<Rightarrow> bin list option" where
  "bins chartRef_current loading earthquakeData =
     (if \<not> chartRef_current \<or> loading \<or> length earthquakeData = 0 then None
      else
        let magnitudes = magnitudes_of earthquakeData
        in Some (d3_bin 0 10 20 magnitudes))"

section \<open>Timeline: \<open>getTimeDistribution\<close>\<close>









section \<open>App: \<open>fetchEarthquakeData\<close> and the refresh cycle\<close>

text \<open>
  What \<open>await response.json()\<close> gives: a rejection when the body is not JSON, the
  value \<open>null\<close>, an object with its \<open>features\<close> (\<open>None\<close> when the object has no
  such field, or a null one), or another JSON value (a number, a string, a boolean or
  an array, none of which has a \<open>features\<close> property).
\<close>

datatype json_body = Unparsable | JsonNull | JsonOther | JsonObject "feature list option"

text \<open>
  How \<open>await fetch(query)\<close> settles: rejected (a network error), or fulfilled with a
  response that has \<open>response.ok\<close>, \<open>response.status\<close> and a body.
\<close>

datatype fetch_outcome = NetworkError | Response bool nat json_body

datatype error = FetchError | HttpError nat | JsonError | TypeError

datatype log_entry = Log_fetching query | Log_fetched json_body | Log_error error

text \<open>
  The state of the \<open>App\<close> component, the console, and the requests that have been
  issued and have not settled yet (each with the query it was issued for).
\<close>

record app_state =
  earthquakeData :: "feature list"
  loading :: bool
  filters :: filterOptions
  console :: "log_entry list"
  inflight :: "query list"

text \<open>
  The part of the \<open>try\<close> block after \<open>await fetch(query)\<close>: what it logs, and either
  the error it throws or the argument of \<open>setEarthquakeData\<close>
  (\<open>data.features || []\<close>).
\<close>

fun try_block :: "fetch_outcome \<Rightarrow> log_entry list \<times> (error + feature list)" where
  "try_block NetworkError = ([], Inl FetchError)"
| "try_block (Response ok status body) =
     (if \<not> ok then ([], Inl (HttpError status))
      else case body of
          Unparsable \<Rightarrow> ([], Inl JsonError)
        | JsonNull \<Rightarrow> ([Log_fetched body], Inl TypeError)
        | JsonOther \<Rightarrow> ([Log_fetched body], Inr [])
        | JsonObject features \<Rightarrow>
            ([Log_fetched body], Inr (case features of None \<Rightarrow> [] | Some fs \<Rightarrow> fs)))"

text \<open>
  \<open>fetchEarthquakeData\<close> up to its first \<open>await\<close>: \<open>setLoading(true)\<close>, the query
  built from the filters of the current render, the log line, and the request issued.
\<close>

definition fetch_start :: "int \<Rightarrow> app_state \<Rightarrow> app_state" where
  "fetch_start now s =
     (let query = buildUSGSQuery now (filters s)
      in s\<lparr>loading := True,
           console := console s @ [Log_fetching query],
           inflight := inflight s @ [query]\<rparr>)"

text \<open>
  The rest of \<open>fetchEarthquakeData\<close>, run when the request settles: the \<open>try\<close> block,
  the \<open>catch\<close> (log the error, \<open>setEarthquakeData([])\<close>) and the \<open>finally\<close>
  (\<open>setLoading(false)\<close>).
\<close>

definition fetch_settle :: "fetch_outcome \<Rightarrow> app_state \<Rightarrow> app_state" where
  "fetch_settle outcome s =
     (case try_block outcome of
        (logs, Inr features) \<Rightarrow>
          s\<lparr>console := console s @ logs, earthquakeData := features, loading := False\<rparr>
      | (logs, Inl e) \<Rightarrow>
          s\<lparr>console := console s @ logs @ [Log_error e], earthquakeData := [],
            loading := False\<rparr>)"

text \<open>The Snapshot that a settled request leaves in \<open>earthquakeData\<close>.\<close>

definition snapshot_of :: "fetch_outcome \<Rightarrow> feature list" where
  "snapshot_of outcome = (case snd (try_block outcome) of Inl e \<Rightarrow> [] | Inr features \<Rightarrow> features)"

text \<open>One call of \<open>fetchEarthquakeData\<close> whose request settles with \<open>outcome\<close>.\<close>

definition fetchEarthquakeData :: "int \<Rightarrow> fetch_outcome \<Rightarrow> app_state \<Rightarrow> app_state" where
  "fetchEarthquakeData now outcome s =
     (let s1 = fetch_start now s
      in fetch_settle outcome (s1\<lparr>inflight := butlast (inflight s1)\<rparr>))"

text \<open>\<open>updateFilter\<close>: \<open>{...prev, [key]: value}\<close>, on the fields the query builder reads.\<close>

definition updateFilter :: "string \<Rightarrow> jsvalue \<Rightarrow> filterOptions \<Rightarrow> filterOptions" where
  "updateFilter key v prev =
     (if key = ''timeRange'' then prev\<lparr>timeRange := v\<rparr>
      else if key = ''minMagnitude'' then prev\<lparr>minMagnitude := v\<rparr>
      else if key = ''maxMagnitude'' then prev\<lparr>maxMagnitude := v\<rparr>
      else if key = ''limit'' then prev\<lparr>limit := v\<rparr>
      else if key = ''minDepth'' then prev\<lparr>minDepth := v\<rparr>
      else if key = ''maxDepth'' then prev\<lparr>maxDepth := v\<rparr>
      else if key = ''latitude'' then prev\<lparr>latitude := v\<rparr>
      else if key = ''longitude'' then prev\<lparr>longitude := v\<rparr>
      else if key = ''radius'' then prev\<lparr>radius := v\<rparr>
      else prev)"

text \<open>
  The events of the page, each handled to completion before the next one: a filter
  change at clock reading \<open>now\<close> (the effect on \<open>[filters]\<close> runs again and calls
  \<open>fetchEarthquakeData\<close>; its cleanup clears the interval only), a tick of the
  5-minute interval, and the settling of the \<open>i\<close>-th request in flight. Requests
  settle in any order, and nothing cancels one.
\<close>

datatype event = UpdateFilter string jsvalue int | IntervalTick int | Settle nat fetch_outcome

fun step :: "event \<Rightarrow> app_state \<Rightarrow> app_state" where
  "step (UpdateFilter key v now) s =
     fetch_start now (s\<lparr>filters := updateFilter key v (filters s)\<rparr>)"
| "step (IntervalTick now) s = fetch_start now s"
| "step (Settle i outcome) s =
     (if i < length (inflight s)
      then fetch_settle outcome (s\<lparr>inflight := take i (inflight s) @ drop (Suc i) (inflight s)\<rparr>)
      else s)"

definition run :: "event list \<Rightarrow> app_state \<Rightarrow> app_state" where
  "run evs s = foldl (\<lambda>s ev. step ev s) s evs"

text \<open>The initial filters of \<open>useState\<close>, and the page after the effect of the first render.\<close>

definition initial_filters :: filterOptions where
  "initial_filters =
     \<lparr>timeRange = JString ''day'', minMagnitude = JNumber (Finite 1),
      maxMagnitude = JNumber (Finite 10), limit = JNumber (Finite 100),
      minDepth = JUndefined, maxDepth = JUndefined, latitude = JUndefined,
      longitude = JUndefined, radius = JUndefined\<rparr>"

definition mount :: "int \<Rightarrow> app_state" where
  "mount now =
     fetch_start now
       \<lparr>earthquakeData = [], loading = True, filters = initial_filters, console = [],
        inflight = []\<rparr>"

section \<open>Concrete inputs\<close>

text \<open>
  The filter configuration of the specification's scenario, with a maximum magnitude
  of 0, one with every optional field set, and one with every optional field and the
  limit equal to 0.
\<close>

definition scenario_filters :: filterOptions where
  "scenario_filters =
     \<lparr>timeRange = JString ''week'', minMagnitude = JNumber (Finite 2),
      maxMagnitude = JNumber (Finite 0), limit = JNumber (Finite 250),
      minDepth = JUndefined, maxDepth = JUndefined, latitude = JUndefined,
      longitude = JUndefined, radius = JUndefined\<rparr>"

definition all_fields_filters :: filterOptions where
  "all_fields_filters =
     \<lparr>timeRange = JString ''month'', minMagnitude = JNumber (Finite 2),
      maxMagnitude = JNumber (Finite 8), limit = JNumber (Finite 50),
      minDepth = JNumber (Finite 5), maxDepth = JNumber (Finite 300),
      latitude = JNumber (Finite 35), longitude = JNumber (Finite 139),
      radius = JNumber (Finite 500)\<rparr>"

definition equator_filters :: filterOptions where
  "equator_filters =
     \<lparr>timeRange = JString ''day'', minMagnitude = JNumber (Finite 1),
      maxMagnitude = JNumber (Finite 10), limit = JNumber (Finite 0),
      minDepth = JNumber (Finite 0), maxDepth = JNumber (Finite 0),
      latitude = JNumber (Finite 0), longitude = JNumber (Finite 0),
      radius = JNumber (Finite 0)\<rparr>"

text \<open>
  Feed records, and the snapshot of the specification's scenario: magnitudes 3.2, 4.5,
  6.9, 7.1 and null, depths 10, 70, 299, 300 and null.
\<close>

definition quake :: "string \<Rightarrow> real option \<Rightarrow> int \<Rightarrow> real option \<Rightarrow> feature" where
  "quake i m t d = \<lparr>fid = i, mag = m, place = ''somewhere'', time = t, depth = d\<rparr>"

definition scenario_snapshot :: "feature list" where
  "scenario_snapshot =
     [quake ''a'' (Some 3.2) 1000 (Some 10), quake ''b'' (Some 4.5) 2000 (Some 70),
      quake ''c'' (Some 6.9) 3000 (Some 299), quake ''d'' (Some 7.1) 4000 (Some 300),
      quake ''e'' None 5000 None]"

text \<open>The scenario's snapshot with three more events, of magnitudes 10, 11 and -1.\<close>

definition histogram_snapshot :: "feature list" where
  "histogram_snapshot =
     scenario_snapshot @
     [quake ''f'' (Some 10) 6000 None, quake ''g'' (Some 11) 7000 None,
      quake ''h'' (Some (- 1)) 8000 None]"


text \<open>
  Two successful responses with different events, the filters after the time range is
  changed to a week, and a page at rest that shows the scenario's snapshot.
\<close>

definition day_response :: fetch_outcome where
  "day_response = Response True 200 (JsonObject (Some [quake ''day'' (Some 2) 500 (Some 10)]))"

definition week_response :: fetch_outcome where
  "week_response = Response True 200 (JsonObject (Some [quake ''week'' (Some 5) 100 (Some 10)]))"

definition week_filters :: filterOptions where
  "week_filters = initial_filters\<lparr>timeRange := JString ''week''\<rparr>"

definition idle_state :: app_state where
  "idle_state =
     \<lparr>earthquakeData = scenario_snapshot, loading = False, filters = initial_filters,
      console = [], inflight = []\<rparr>"

section \<open>Properties of the query builder\<close>

subsection \<open>What each parameter of the query holds\<close>

lemma getAll_starttime:
  "getAll ''starttime'' (buildUSGSQuery now fo) = [IsoTime (startTime now (timeRange fo))]"
  by (simp add: getAll_def buildUSGSQuery_def append_if_def)

lemma getAll_endtime:
  "getAll ''endtime'' (buildUSGSQuery now fo) = [IsoTime now]"
  by (simp add: getAll_def buildUSGSQuery_def append_if_def)

lemma getAll_limit:
  "getAll ''limit'' (buildUSGSQuery now fo) =
     [Value (if truthy (limit fo) then limit fo else JNumber (Finite 100))]"
  by (simp add: getAll_def buildUSGSQuery_def append_if_def)

lemma getAll_minmagnitude:
  "getAll ''minmagnitude'' (buildUSGSQuery now fo) =
     (if truthy (minMagnitude fo) then [Value (minMagnitude fo)] else [])"
  by (simp add: getAll_def buildUSGSQuery_def append_if_def)

lemma getAll_maxmagnitude:
  "getAll ''maxmagnitude'' (buildUSGSQuery now fo) =
     (if truthy (maxMagnitude fo) then [Value (maxMagnitude fo)] else [])"
  by (simp add: getAll_def buildUSGSQuery_def append_if_def)

lemma getAll_mindepth:
  "getAll ''mindepth'' (buildUSGSQuery now fo) =
     (if truthy (minDepth fo) then [Value (minDepth fo)] else [])"
  by (simp add: getAll_def buildUSGSQuery_def append_if_def)

lemma getAll_maxdepth:
  "getAll ''maxdepth'' (buildUSGSQuery now fo) =
     (if truthy (maxDepth fo) then [Value (maxDepth fo)] else [])"
  by (simp add: getAll_def buildUSGSQuery_def append_if_def)

lemma getAll_latitude:
  "getAll ''latitude'' (buildUSGSQuery now fo) =
     (if truthy (latitude fo) then [Value (latitude fo)] else [])"
  by (simp add: getAll_def buildUSGSQuery_def append_if_def)

lemma getAll_longitude:
  "getAll ''longitude'' (buildUSGSQuery now fo) =
     (if truthy (longitude fo) then [Value (longitude fo)] else [])"
  by (simp add: getAll_def buildUSGSQuery_def append_if_def)

lemma getAll_maxradiuskm:
  "getAll ''maxradiuskm'' (buildUSGSQuery now fo) =
     (if truthy (radius fo) then [Value (radius fo)] else [])"
  by (simp add: getAll_def buildUSGSQuery_def append_if_def)

subsection \<open>The time window\<close>

text \<open>
  Claim C6. \<open>endtime\<close> is the clock reading in every case. \<open>starttime\<close> is one hour
  before it for \<open>hour\<close>, 24 hours for \<open>day\<close>, 7 days for \<open>week\<close>, 30 days for
  \<open>month\<close>, and for every other value of \<open>timeRange\<close> (another string, or no string
  at all) the builder does not fail and uses the 24-hour window.
\<close>

theorem buildUSGSQuery_time_window:
  "getAll ''endtime'' (buildUSGSQuery now fo) = [IsoTime now]
   \<and> (timeRange fo = JString ''hour'' \<longrightarrow>
        getAll ''starttime'' (buildUSGSQuery now fo) = [IsoTime (now - 3600000)])
   \<and> (timeRange fo = JString ''day'' \<longrightarrow>
        getAll ''starttime'' (buildUSGSQuery now fo) = [IsoTime (now - 86400000)])
   \<and> (timeRange fo = JString ''week'' \<longrightarrow>
        getAll ''starttime'' (buildUSGSQuery now fo) = [IsoTime (now - 604800000)])
   \<and> (timeRange fo = JString ''month'' \<longrightarrow>
        getAll ''starttime'' (buildUSGSQuery now fo) = [IsoTime (now - 2592000000)])
   \<and> (timeRange fo \<notin> {JString ''hour'', JString ''day'', JString ''week'', JString ''month''} \<longrightarrow>
        getAll ''starttime'' (buildUSGSQuery now fo) = [IsoTime (now - 86400000)])"
  by (simp add: getAll_starttime getAll_endtime startTime_def)

theorem buildUSGSQuery_time_window_witness:
  "getAll ''starttime'' (buildUSGSQuery 1700000000000 scenario_filters) = [IsoTime 1699395200000]
   \<and> getAll ''starttime'' (buildUSGSQuery 1700000000000 (scenario_filters\<lparr>timeRange := JString ''year''\<rparr>))
       = [IsoTime 1699913600000]
   \<and> getAll ''starttime'' (buildUSGSQuery 1700000000000 (scenario_filters\<lparr>timeRange := JUndefined\<rparr>))
       = [IsoTime 1699913600000]"
  using buildUSGSQuery_time_window [of 1700000000000 scenario_filters]
    buildUSGSQuery_time_window [of 1700000000000 "scenario_filters\<lparr>timeRange := JString ''year''\<rparr>"]
    buildUSGSQuery_time_window [of 1700000000000 "scenario_filters\<lparr>timeRange := JUndefined\<rparr>"]
  by (simp add: scenario_filters_def)

subsection \<open>The optional parameters\<close>

text \<open>
  Claim C1, as stated, fails: in the scenario of the specification the maximum
  magnitude is 0 and no \<open>maxmagnitude\<close> parameter is emitted.
\<close>

theorem zero_maxMagnitude_not_emitted:
  "getAll ''maxmagnitude'' (buildUSGSQuery 1700000000000 scenario_filters) = []
   \<and> maxMagnitude scenario_filters = JNumber (Finite 0)"
  by (simp add: getAll_maxmagnitude scenario_filters_def)

text \<open>
  Claim C1, amended. Each of the seven optional parameters is emitted exactly when the
  corresponding field is truthy, and then once, with the value of that field and of no
  other. A magnitude bound equal to 0 is falsy like every other 0: its parameter is
  omitted.
\<close>

theorem optional_parameter_iff_truthy:
  "getAll ''minmagnitude'' (buildUSGSQuery now fo)
     = (if truthy (minMagnitude fo) then [Value (minMagnitude fo)] else [])
   \<and> getAll ''maxmagnitude'' (buildUSGSQuery now fo)
     = (if truthy (maxMagnitude fo) then [Value (maxMagnitude fo)] else [])
   \<and> getAll ''mindepth'' (buildUSGSQuery now fo)
     = (if truthy (minDepth fo) then [Value (minDepth fo)] else [])
   \<and> getAll ''maxdepth'' (buildUSGSQuery now fo)
     = (if truthy (maxDepth fo) then [Value (maxDepth fo)] else [])
   \<and> getAll ''latitude'' (buildUSGSQuery now fo)
     = (if truthy (latitude fo) then [Value (latitude fo)] else [])
   \<and> getAll ''longitude'' (buildUSGSQuery now fo)
     = (if truthy (longitude fo) then [Value (longitude fo)] else [])
   \<and> getAll ''maxradiuskm'' (buildUSGSQuery now fo)
     = (if truthy (radius fo) then [Value (radius fo)] else [])
   \<and> (getAll ''minmagnitude'' (buildUSGSQuery now fo) \<noteq> [] \<longleftrightarrow> truthy (minMagnitude fo))
   \<and> (getAll ''maxmagnitude'' (buildUSGSQuery now fo) \<noteq> [] \<longleftrightarrow> truthy (maxMagnitude fo))
   \<and> (getAll ''mindepth'' (buildUSGSQuery now fo) \<noteq> [] \<longleftrightarrow> truthy (minDepth fo))
   \<and> (getAll ''maxdepth'' (buildUSGSQuery now fo) \<noteq> [] \<longleftrightarrow> truthy (maxDepth fo))
   \<and> (getAll ''latitude'' (buildUSGSQuery now fo) \<noteq> [] \<longleftrightarrow> truthy (latitude fo))
   \<and> (getAll ''longitude'' (buildUSGSQuery now fo) \<noteq> [] \<longleftrightarrow> truthy (longitude fo))
   \<and> (getAll ''maxradiuskm'' (buildUSGSQuery now fo) \<noteq> [] \<longleftrightarrow> truthy (radius fo))
   \<and> (truthy (minMagnitude fo) \<longrightarrow>
        getAll ''minmagnitude'' (buildUSGSQuery now fo) = [Value (minMagnitude fo)])
   \<and> (truthy (maxMagnitude fo) \<longrightarrow>
        getAll ''maxmagnitude'' (buildUSGSQuery now fo) = [Value (maxMagnitude fo)])
   \<and> (truthy (minDepth fo) \<longrightarrow>
        getAll ''mindepth'' (buildUSGSQuery now fo) = [Value (minDepth fo)])
   \<and> (truthy (maxDepth fo) \<longrightarrow>
        getAll ''maxdepth'' (buildUSGSQuery now fo) = [Value (maxDepth fo)])
   \<and> (truthy (latitude fo) \<longrightarrow>
        getAll ''latitude'' (buildUSGSQuery now fo) = [Value (latitude fo)])
   \<and> (truthy (longitude fo) \<longrightarrow>
        getAll ''longitude'' (buildUSGSQuery now fo) = [Value (longitude fo)])
   \<and> (truthy (radius fo) \<longrightarrow>
        getAll ''maxradiuskm'' (buildUSGSQuery now fo) = [Value (radius fo)])
   \<and> (minMagnitude fo = JNumber (Finite 0) \<longrightarrow>
        getAll ''minmagnitude'' (buildUSGSQuery now fo) = [])
   \<and> (maxMagnitude fo = JNumber (Finite 0) \<longrightarrow>
        getAll ''maxmagnitude'' (buildUSGSQuery now fo) = [])"
  by (simp add: getAll_minmagnitude getAll_maxmagnitude getAll_mindepth getAll_maxdepth
      getAll_latitude getAll_longitude getAll_maxradiuskm)

theorem optional_parameter_iff_truthy_witness:
  "getAll ''minmagnitude'' (buildUSGSQuery 1700000000000 scenario_filters) = [Value (JNumber (Finite 2))]
   \<and> getAll ''maxmagnitude'' (buildUSGSQuery 1700000000000 scenario_filters) = []
   \<and> getAll ''latitude'' (buildUSGSQuery 1700000000000 scenario_filters) = []
   \<and> getAll ''mindepth'' (buildUSGSQuery 1700000000000 all_fields_filters)
       = [Value (JNumber (Finite 5))]
   \<and> getAll ''maxdepth'' (buildUSGSQuery 1700000000000 all_fields_filters)
       = [Value (JNumber (Finite 300))]
   \<and> getAll ''latitude'' (buildUSGSQuery 1700000000000 all_fields_filters)
       = [Value (JNumber (Finite 35))]
   \<and> getAll ''longitude'' (buildUSGSQuery 1700000000000 all_fields_filters)
       = [Value (JNumber (Finite 139))]
   \<and> getAll ''maxradiuskm'' (buildUSGSQuery 1700000000000 all_fields_filters)
       = [Value (JNumber (Finite 500))]"
  using optional_parameter_iff_truthy [of 1700000000000 scenario_filters]
    optional_parameter_iff_truthy [of 1700000000000 all_fields_filters]
  by (simp add: scenario_filters_def all_fields_filters_def)

text \<open>
  Claim C10. A depth bound, a latitude, a longitude or a radius equal to 0 is omitted
  from the query, and a limit that is 0 or absent is replaced by 100.
\<close>

theorem zero_valued_fields_omitted:
  "(minDepth fo = JNumber (Finite 0) \<longrightarrow> getAll ''mindepth'' (buildUSGSQuery now fo) = [])
   \<and> (maxDepth fo = JNumber (Finite 0) \<longrightarrow> getAll ''maxdepth'' (buildUSGSQuery now fo) = [])
   \<and> (latitude fo = JNumber (Finite 0) \<longrightarrow> getAll ''latitude'' (buildUSGSQuery now fo) = [])
   \<and> (longitude fo = JNumber (Finite 0) \<longrightarrow> getAll ''longitude'' (buildUSGSQuery now fo) = [])
   \<and> (radius fo = JNumber (Finite 0) \<longrightarrow> getAll ''maxradiuskm'' (buildUSGSQuery now fo) = [])
   \<and> (limit fo = JNumber (Finite 0) \<or> limit fo = JUndefined \<longrightarrow>
        getAll ''limit'' (buildUSGSQuery now fo) = [Value (JNumber (Finite 100))])"
  by (auto simp add: getAll_limit getAll_mindepth getAll_maxdepth
      getAll_latitude getAll_longitude getAll_maxradiuskm)

theorem zero_valued_fields_omitted_witness:
  "getAll ''mindepth'' (buildUSGSQuery 1700000000000 equator_filters) = []
   \<and> getAll ''maxdepth'' (buildUSGSQuery 1700000000000 equator_filters) = []
   \<and> getAll ''latitude'' (buildUSGSQuery 1700000000000 equator_filters) = []
   \<and> getAll ''longitude'' (buildUSGSQuery 1700000000000 equator_filters) = []
   \<and> getAll ''maxradiuskm'' (buildUSGSQuery 1700000000000 equator_filters) = []
   \<and> getAll ''limit'' (buildUSGSQuery 1700000000000 equator_filters) = [Value (JNumber (Finite 100))]
   \<and> getAll ''limit'' (buildUSGSQuery 1700000000000 (equator_filters\<lparr>limit := JUndefined\<rparr>))
       = [Value (JNumber (Finite 100))]"
  using zero_valued_fields_omitted [of equator_filters 1700000000000]
    zero_valued_fields_omitted [of "equator_filters\<lparr>limit := JUndefined\<rparr>" 1700000000000]
  by (simp add: equator_filters_def)

section \<open>Properties of the dashboard aggregations\<close>

subsection \<open>The recent earthquakes\<close>

lemma recentEarthquakes_sorted:
  "sorted (map (\<lambda>eq. - time eq) (fst (recentEarthquakes xs)))"
  by (simp add: recentEarthquakes_def sort_desc_time_def Let_def)

lemma recentEarthquakes_result:
  "snd (recentEarthquakes xs) = take 10 (sort_key (\<lambda>eq. - time eq) xs)"
  by (simp add: recentEarthquakes_def sort_desc_time_def Let_def)

lemma recentEarthquakes_again:
  "recentEarthquakes (fst (recentEarthquakes xs)) = recentEarthquakes xs"
  by (simp add: recentEarthquakes_def sort_desc_time_def Let_def sort_key_id_if_sorted)

text \<open>
  Claim C2. The value of \<open>recentEarthquakes\<close> is the stable descending sort cut to
  10 entries, and a second evaluation gives the same value (the three lemmas above).
  But the input is not left as it was: \<open>sort\<close> reorders the array
  \<open>earthquakeData\<close> itself. On a snapshot of two events with the older one first,
  the array holds the newer one first after the statement.
\<close>

theorem recentEarthquakes_reorders_input:
  "recentEarthquakes [quake ''a'' (Some 3.2) 1000 (Some 10), quake ''b'' (Some 4.5) 2000 (Some 70)]
     = ([quake ''b'' (Some 4.5) 2000 (Some 70), quake ''a'' (Some 3.2) 1000 (Some 10)],
        [quake ''b'' (Some 4.5) 2000 (Some 70), quake ''a'' (Some 3.2) 1000 (Some 10)])
   \<and> fst (recentEarthquakes [quake ''a'' (Some 3.2) 1000 (Some 10), quake ''b'' (Some 4.5) 2000 (Some 70)])
     \<noteq> [quake ''a'' (Some 3.2) 1000 (Some 10), quake ''b'' (Some 4.5) 2000 (Some 70)]"
  by (simp add: recentEarthquakes_def sort_desc_time_def Let_def quake_def)

subsection \<open>The summary statistics\<close>

lemma getStats_empty:
  "getStats now [] = \<lparr>total = 0, largest = NumberValue (Finite 0),
     averageMagnitude = NumberValue (Finite 0), last24Hours = 0\<rparr>"
  by (simp add: getStats_def)

lemma getStats_total: "total (getStats now xs) = length xs"
  by (simp add: getStats_def Let_def)

lemma getStats_last24Hours:
  "last24Hours (getStats now xs) = length (filter (\<lambda>eq. now - time eq < 86400000) xs)"
  by (simp add: getStats_def Let_def)

lemma foldl_plus_sum_list: "foldl (\<lambda>sum mag. sum + mag) a xs = a + sum_list xs"
  for a :: real
  by (induction xs arbitrary: a) simp_all

lemma Math_max_nonempty: "Math_max xs = (if xs = [] then NegInfinity else Finite (Max (set xs)))"
proof (cases xs)
  case Nil
  then show ?thesis by simp
next
  case (Cons x ys)
  have "Max (set (x # ys)) = fold max ys x" by (rule Max.set_eq_fold)
  with Cons show ?thesis by (simp del: set_simps)
qed

lemma getStats_with_magnitudes:
  assumes "magnitudes_of xs \<noteq> []"
  shows "largest (getStats now xs) = ToFixed1 (Finite (Max (set (magnitudes_of xs))))"
    and "averageMagnitude (getStats now xs)
         = ToFixed1 (Finite (sum_list (magnitudes_of xs) / real (length (magnitudes_of xs))))"
proof -
  from assms have ne: "xs \<noteq> []" by (auto simp: magnitudes_of_def)
  show "largest (getStats now xs) = ToFixed1 (Finite (Max (set (magnitudes_of xs))))"
    using ne assms by (simp add: getStats_def Let_def Math_max_nonempty)
  show "averageMagnitude (getStats now xs)
         = ToFixed1 (Finite (sum_list (magnitudes_of xs) / real (length (magnitudes_of xs))))"
    using ne assms by (simp add: getStats_def Let_def js_divide_def foldl_plus_sum_list)
qed

lemma getStats_scenario:
  "getStats 6000 scenario_snapshot =
     \<lparr>total = 5, largest = ToFixed1 (Finite 7.1), averageMagnitude = ToFixed1 (Finite 5.425),
      last24Hours = 5\<rparr>"
  by (simp add: getStats_def Let_def scenario_snapshot_def quake_def magnitudes_of_def js_divide_def
      del: not_None_eq)

text \<open>
  Claim C3. The total, the count of the last 24 hours and the result on the empty
  snapshot are as claimed (the lemmas above). But the guard of \<open>getStats\<close> tests
  the snapshot, not the magnitudes: on a snapshot that is not empty and has no
  magnitude that is not null, \<open>largest\<close> is \<open>(-Infinity).toFixed(1)\<close> and
  \<open>averageMagnitude\<close> is \<open>NaN.toFixed(1)\<close>, where the claim says 0.
\<close>

theorem getStats_all_null_magnitudes:
  "getStats 6000 [quake ''e'' None 5000 None] =
     \<lparr>total = 1, largest = ToFixed1 NegInfinity, averageMagnitude = ToFixed1 NaN,
      last24Hours = 1\<rparr>"
  by (simp add: getStats_def Let_def quake_def magnitudes_of_def js_divide_def)

section \<open>Properties of the band counts\<close>

lemma magnitude_bands_sum:
  "length (filter minor_band xs) + length (filter light_band xs)
   + length (filter moderate_band xs) + length (filter strong_band xs)
   + length (filter major_band xs) = length xs"
  by (induction xs)
    (auto simp: minor_band_def light_band_def moderate_band_def strong_band_def major_band_def)

lemma depth_bands_sum:
  "length (filter shallow_band xs) + length (filter intermediate_band xs)
   + length (filter deep_band xs) = length xs"
  by (induction xs) (auto simp: shallow_band_def intermediate_band_def deep_band_def)

lemma length_magnitudes_of:
  "length (magnitudes_of xs) = length (filter (\<lambda>eq. mag eq \<noteq> None) xs)"
  by (simp add: magnitudes_of_def filter_map comp_def)

lemma length_depths_of:
  "length (depths_of xs) = length (filter (\<lambda>eq. depth eq \<noteq> None) xs)"
  by (simp add: depths_of_def filter_map comp_def)

lemma length_filter_magnitudes_of:
  "length (filter P (magnitudes_of xs))
   = length (filter (\<lambda>eq. case mag eq of None \<Rightarrow> False | Some m \<Rightarrow> P m) xs)"
  by (induction xs) (auto simp: magnitudes_of_def)

lemma length_filter_depths_of:
  "length (filter P (depths_of xs))
   = length (filter (\<lambda>eq. case depth eq of None \<Rightarrow> False | Some d \<Rightarrow> P d) xs)"
  by (induction xs) (auto simp: depths_of_def)

lemma magnitude_band_unique:
  "length (filter id [minor_band m, light_band m, moderate_band m, strong_band m, major_band m]) = 1"
  by (simp add: minor_band_def light_band_def moderate_band_def strong_band_def major_band_def)

lemma depth_band_unique:
  "length (filter id [shallow_band d, intermediate_band d, deep_band d]) = 1"
  by (simp add: shallow_band_def intermediate_band_def deep_band_def)

lemma magnitude_band_intervals:
  "(major_band m \<longleftrightarrow> m \<in> {7..}) \<and> (strong_band m \<longleftrightarrow> m \<in> {6..<7})
   \<and> (moderate_band m \<longleftrightarrow> m \<in> {5..<6}) \<and> (light_band m \<longleftrightarrow> m \<in> {4..<5})
   \<and> (minor_band m \<longleftrightarrow> m \<in> {..<4})"
  by (simp add: minor_band_def light_band_def moderate_band_def strong_band_def major_band_def)

lemma depth_band_intervals:
  "0 \<le> d \<Longrightarrow> (shallow_band d \<longleftrightarrow> d \<in> {0..<70})
   \<and> (intermediate_band d \<longleftrightarrow> d \<in> {70..<300}) \<and> (deep_band d \<longleftrightarrow> d \<in> {300..})"
  by (simp add: shallow_band_def intermediate_band_def deep_band_def)

lemma getMagnitudeStats_sum:
  "xs \<noteq> [] \<Longrightarrow> \<exists>r. getMagnitudeStats xs = Some r
     \<and> minor r + light r + moderate r + strong r + major r
       = length (filter (\<lambda>eq. mag eq \<noteq> None) xs)"
  using magnitude_bands_sum [of "magnitudes_of xs"]
  by (simp add: getMagnitudeStats_def Let_def length_magnitudes_of)

lemma getDepthDistribution_sum:
  "xs \<noteq> [] \<Longrightarrow> \<exists>r. getDepthDistribution xs = Some r
     \<and> shallow r + intermediate r + deep r = length (filter (\<lambda>eq. depth eq \<noteq> None) xs)"
  using depth_bands_sum [of "depths_of xs"]
  by (simp add: getDepthDistribution_def Let_def length_depths_of)

lemma shown_magnitude_sum:
  "shown minor (getMagnitudeStats xs) + shown light (getMagnitudeStats xs)
   + shown moderate (getMagnitudeStats xs) + shown strong (getMagnitudeStats xs)
   + shown major (getMagnitudeStats xs) = length (filter (\<lambda>eq. mag eq \<noteq> None) xs)"
proof (cases "xs = []")
  case True
  then show ?thesis by (simp add: getMagnitudeStats_def shown_def)
next
  case False
  from getMagnitudeStats_sum [OF this] show ?thesis by (auto simp: shown_def)
qed

lemma shown_depth_sum:
  "shown shallow (getDepthDistribution xs) + shown intermediate (getDepthDistribution xs)
   + shown deep (getDepthDistribution xs) = length (filter (\<lambda>eq. depth eq \<noteq> None) xs)"
proof (cases "xs = []")
  case True
  then show ?thesis by (simp add: getDepthDistribution_def shown_def)
next
  case False
  from getDepthDistribution_sum [OF this] show ?thesis by (auto simp: shown_def)
qed

lemma getMagnitudeStats_scenario:
  "getMagnitudeStats scenario_snapshot =
     Some \<lparr>minor = 1, light = 1, moderate = 0, strong = 1, major = 1\<rparr>"
  by (simp add: getMagnitudeStats_def Let_def scenario_snapshot_def quake_def magnitudes_of_def
      minor_band_def light_band_def moderate_band_def strong_band_def major_band_def
      del: not_None_eq)

lemma getDepthDistribution_scenario:
  "getDepthDistribution scenario_snapshot = Some \<lparr>shallow = 1, intermediate = 2, deep = 1\<rparr>"
  by (simp add: getDepthDistribution_def Let_def scenario_snapshot_def quake_def depths_of_def
      shallow_band_def intermediate_band_def deep_band_def del: not_None_eq)

lemma getMagnitudeStats_counts:
  "xs \<noteq> [] \<Longrightarrow> getMagnitudeStats xs =
     Some \<lparr>minor = length (filter (\<lambda>eq. case mag eq of None \<Rightarrow> False | Some m \<Rightarrow> m < 4) xs),
           light = length (filter (\<lambda>eq. case mag eq of None \<Rightarrow> False
                                       | Some m \<Rightarrow> 4 \<le> m \<and> m < 5) xs),
           moderate = length (filter (\<lambda>eq. case mag eq of None \<Rightarrow> False
                                       | Some m \<Rightarrow> 5 \<le> m \<and> m < 6) xs),
           strong = length (filter (\<lambda>eq. case mag eq of None \<Rightarrow> False
                                       | Some m \<Rightarrow> 6 \<le> m \<and> m < 7) xs),
           major = length (filter (\<lambda>eq. case mag eq of None \<Rightarrow> False | Some m \<Rightarrow> 7 \<le> m) xs)\<rparr>"
  unfolding getMagnitudeStats_def Let_def length_filter_magnitudes_of
    minor_band_def light_band_def moderate_band_def strong_band_def major_band_def
  by simp

lemma getDepthDistribution_counts:
  "xs \<noteq> [] \<Longrightarrow> getDepthDistribution xs =
     Some \<lparr>shallow = length (filter (\<lambda>eq. case depth eq of None \<Rightarrow> False | Some d \<Rightarrow> d < 70) xs),
           intermediate = length (filter (\<lambda>eq. case depth eq of None \<Rightarrow> False
                                       | Some d \<Rightarrow> 70 \<le> d \<and> d < 300) xs),
           deep = length (filter (\<lambda>eq. case depth eq of None \<Rightarrow> False | Some d \<Rightarrow> 300 \<le> d) xs)\<rparr>"
  unfolding getDepthDistribution_def Let_def length_filter_depths_of
    shallow_band_def intermediate_band_def deep_band_def
  by simp

lemma getDepthDistribution_shallow_nonneg:
  assumes "xs \<noteq> []" and "\<forall>eq\<in>set xs. \<forall>d. depth eq = Some d \<longrightarrow> 0 \<le> d"
  shows "\<exists>r. getDepthDistribution xs = Some r
           \<and> shallow r = length (filter (\<lambda>eq. case depth eq of None \<Rightarrow> False
                                              | Some d \<Rightarrow> d \<in> {0..<70}) xs)"
proof -
  have "filter (\<lambda>eq. case depth eq of None \<Rightarrow> False | Some d \<Rightarrow> d < 70) xs
      = filter (\<lambda>eq. case depth eq of None \<Rightarrow> False | Some d \<Rightarrow> d \<in> {0..<70}) xs"
    using assms(2) by (intro filter_cong refl) (auto split: option.splits)
  then show ?thesis
    by (simp add: getDepthDistribution_counts [OF assms(1)])
qed

lemma getMagnitudeColor_bands:
  "(getMagnitudeColor m = ''#e74c3c'' \<longleftrightarrow> major_band m)
   \<and> (getMagnitudeColor m = ''#f39c12'' \<longleftrightarrow> strong_band m)
   \<and> (getMagnitudeColor m = ''#f1c40f'' \<longleftrightarrow> moderate_band m)
   \<and> (getMagnitudeColor m = ''#27ae60'' \<longleftrightarrow> light_band m)
   \<and> (getMagnitudeColor m = ''#3498db'' \<longleftrightarrow> minor_band m)"
  by (simp add: getMagnitudeColor_def minor_band_def light_band_def moderate_band_def
      strong_band_def major_band_def)

text \<open>
  Claim C4. Every magnitude satisfies exactly one of the five band tests, every depth
  exactly one of the three; the bands are the half-open intervals of the
  specification (the shallow band on the depths from 0 on; a negative depth is counted
  as shallow too), so that 7 is major, 4 is light, 70 is intermediate and 300 is deep;
  the colour classification agrees with the band tests. On every snapshot that is not
  empty the band counts add up to the number of events with a magnitude (a depth) that
  is not null; on the empty snapshot both functions return the empty object, whose
  counts the page shows as 0, so the counts shown add up to that number on every
  snapshot. Each count that \<open>getMagnitudeStats\<close> and \<open>getDepthDistribution\<close>
  return is the number of events whose magnitude (depth) is not null and lies in the
  interval of that band, so that an event of magnitude exactly 7 is counted as major
  and in no other band.
\<close>

theorem band_counts_partition:
  "(\<forall>m. length (filter id [minor_band m, light_band m, moderate_band m, strong_band m,
                            major_band m]) = 1)
   \<and> (\<forall>d. length (filter id [shallow_band d, intermediate_band d, deep_band d]) = 1)
   \<and> (\<forall>m. (major_band m \<longleftrightarrow> m \<in> {7..}) \<and> (strong_band m \<longleftrightarrow> m \<in> {6..<7})
          \<and> (moderate_band m \<longleftrightarrow> m \<in> {5..<6}) \<and> (light_band m \<longleftrightarrow> m \<in> {4..<5})
          \<and> (minor_band m \<longleftrightarrow> m \<in> {..<4}))
   \<and> (\<forall>d\<ge>0. (shallow_band d \<longleftrightarrow> d \<in> {0..<70}) \<and> (intermediate_band d \<longleftrightarrow> d \<in> {70..<300})
          \<and> (deep_band d \<longleftrightarrow> d \<in> {300..}))
   \<and> (\<forall>m. (getMagnitudeColor m = ''#e74c3c'' \<longleftrightarrow> major_band m)
          \<and> (getMagnitudeColor m = ''#f39c12'' \<longleftrightarrow> strong_band m)
          \<and> (getMagnitudeColor m = ''#f1c40f'' \<longleftrightarrow> moderate_band m)
          \<and> (getMagnitudeColor m = ''#27ae60'' \<longleftrightarrow> light_band m)
          \<and> (getMagnitudeColor m = ''#3498db'' \<longleftrightarrow> minor_band m))
   \<and> major_band 7 \<and> \<not> strong_band 7 \<and> light_band 4 \<and> \<not> minor_band 4
   \<and> intermediate_band 70 \<and> \<not> shallow_band 70 \<and> deep_band 300 \<and> \<not> intermediate_band 300
   \<and> (snapshot \<noteq> [] \<longrightarrow>
        (\<exists>r. getMagnitudeStats snapshot = Some r
           \<and> minor r + light r + moderate r + strong r + major r
             = length (filter (\<lambda>eq. mag eq \<noteq> None) snapshot)))
   \<and> (snapshot \<noteq> [] \<longrightarrow>
        (\<exists>r. getDepthDistribution snapshot = Some r
           \<and> shallow r + intermediate r + deep r
             = length (filter (\<lambda>eq. depth eq \<noteq> None) snapshot)))
   \<and> shown minor (getMagnitudeStats snapshot) + shown light (getMagnitudeStats snapshot)
       + shown moderate (getMagnitudeStats snapshot) + shown strong (getMagnitudeStats snapshot)
       + shown major (getMagnitudeStats snapshot)
       = length (filter (\<lambda>eq. mag eq \<noteq> None) snapshot)
   \<and> shown shallow (getDepthDistribution snapshot)
       + shown intermediate (getDepthDistribution snapshot)
       + shown deep (getDepthDistribution snapshot)
       = length (filter (\<lambda>eq. depth eq \<noteq> None) snapshot)
   \<and> (snapshot \<noteq> [] \<longrightarrow>
        (\<exists>r. getMagnitudeStats snapshot = Some r
           \<and> minor r = length (filter (\<lambda>eq. case mag eq of None \<Rightarrow> False
                                              | Some m \<Rightarrow> m < 4) snapshot)
           \<and> light r = length (filter (\<lambda>eq. case mag eq of None \<Rightarrow> False
                                              | Some m \<Rightarrow> 4 \<le> m \<and> m < 5) snapshot)
           \<and> moderate r = length (filter (\<lambda>eq. case mag eq of None \<Rightarrow> False
                                              | Some m \<Rightarrow> 5 \<le> m \<and> m < 6) snapshot)
           \<and> strong r = length (filter (\<lambda>eq. case mag eq of None \<Rightarrow> False
                                              | Some m \<Rightarrow> 6 \<le> m \<and> m < 7) snapshot)
           \<and> major r = length (filter (\<lambda>eq. case mag eq of None \<Rightarrow> False
                                              | Some m \<Rightarrow> 7 \<le> m) snapshot)))
   \<and> (snapshot \<noteq> [] \<longrightarrow>
        (\<exists>r. getDepthDistribution snapshot = Some r
           \<and> shallow r = length (filter (\<lambda>eq. case depth eq of None \<Rightarrow> False
                                              | Some d \<Rightarrow> d < 70) snapshot)
           \<and> intermediate r = length (filter (\<lambda>eq. case depth eq of None \<Rightarrow> False
                                              | Some d \<Rightarrow> 70 \<le> d \<and> d < 300) snapshot)
           \<and> deep r = length (filter (\<lambda>eq. case depth eq of None \<Rightarrow> False
                                              | Some d \<Rightarrow> 300 \<le> d) snapshot)))
   \<and> (snapshot \<noteq> [] \<and> (\<forall>eq\<in>set snapshot. \<forall>d. depth eq = Some d \<longrightarrow> 0 \<le> d) \<longrightarrow>
        (\<exists>r. getDepthDistribution snapshot = Some r
           \<and> shallow r = length (filter (\<lambda>eq. case depth eq of None \<Rightarrow> False
                                              | Some d \<Rightarrow> d \<in> {0..<70}) snapshot)))"
proof -
  have mcounts: "snapshot \<noteq> [] \<longrightarrow>
        (\<exists>r. getMagnitudeStats snapshot = Some r
           \<and> minor r = length (filter (\<lambda>eq. case mag eq of None \<Rightarrow> False
                                              | Some m \<Rightarrow> m < 4) snapshot)
           \<and> light r = length (filter (\<lambda>eq. case mag eq of None \<Rightarrow> False
                                              | Some m \<Rightarrow> 4 \<le> m \<and> m < 5) snapshot)
           \<and> moderate r = length (filter (\<lambda>eq. case mag eq of None \<Rightarrow> False
                                              | Some m \<Rightarrow> 5 \<le> m \<and> m < 6) snapshot)
           \<and> strong r = length (filter (\<lambda>eq. case mag eq of None \<Rightarrow> False
                                              | Some m \<Rightarrow> 6 \<le> m \<and> m < 7) snapshot)
           \<and> major r = length (filter (\<lambda>eq. case mag eq of None \<Rightarrow> False
                                              | Some m \<Rightarrow> 7 \<le> m) snapshot))"
    by (simp add: getMagnitudeStats_counts)
  have dcounts: "snapshot \<noteq> [] \<longrightarrow>
        (\<exists>r. getDepthDistribution snapshot = Some r
           \<and> shallow r = length (filter (\<lambda>eq. case depth eq of None \<Rightarrow> False
                                              | Some d \<Rightarrow> d < 70) snapshot)
           \<and> intermediate r = length (filter (\<lambda>eq. case depth eq of None \<Rightarrow> False
                                              | Some d \<Rightarrow> 70 \<le> d \<and> d < 300) snapshot)
           \<and> deep r = length (filter (\<lambda>eq. case depth eq of None \<Rightarrow> False
                                              | Some d \<Rightarrow> 300 \<le> d) snapshot))"
    by (simp add: getDepthDistribution_counts)
  have dshallow: "snapshot \<noteq> [] \<and> (\<forall>eq\<in>set snapshot. \<forall>d. depth eq = Some d \<longrightarrow> 0 \<le> d) \<longrightarrow>
        (\<exists>r. getDepthDistribution snapshot = Some r
           \<and> shallow r = length (filter (\<lambda>eq. case depth eq of None \<Rightarrow> False
                                              | Some d \<Rightarrow> d \<in> {0..<70}) snapshot))"
    using getDepthDistribution_shallow_nonneg [of snapshot] by blast
  have bounds: "major_band 7 \<and> \<not> strong_band 7 \<and> light_band 4 \<and> \<not> minor_band 4
     \<and> intermediate_band 70 \<and> \<not> shallow_band 70 \<and> deep_band 300 \<and> \<not> intermediate_band 300"
    by (simp add: minor_band_def light_band_def strong_band_def major_band_def
        shallow_band_def intermediate_band_def deep_band_def)
  show ?thesis
    using magnitude_band_unique depth_band_unique magnitude_band_intervals
      depth_band_intervals getMagnitudeColor_bands bounds getMagnitudeStats_sum [of snapshot]
      getDepthDistribution_sum [of snapshot] shown_magnitude_sum [of snapshot]
      shown_depth_sum [of snapshot] mcounts dcounts dshallow
    by blast
qed

theorem band_counts_partition_witness:
  "scenario_snapshot \<noteq> []
   \<and> (\<exists>r. getMagnitudeStats scenario_snapshot = Some r
         \<and> minor r + light r + moderate r + strong r + major r = 4)
   \<and> (\<exists>r. getDepthDistribution scenario_snapshot = Some r
         \<and> shallow r + intermediate r + deep r = 4)
   \<and> (0::real) \<le> 10 \<and> shallow_band 10 \<and> \<not> intermediate_band 10 \<and> \<not> deep_band 10
   \<and> (\<exists>r. getMagnitudeStats scenario_snapshot = Some r
         \<and> minor r = 1 \<and> light r = 1 \<and> moderate r = 0 \<and> strong r = 1 \<and> major r = 1)
   \<and> (\<exists>r. getDepthDistribution scenario_snapshot = Some r
         \<and> shallow r = 1 \<and> intermediate r = 2 \<and> deep r = 1)
   \<and> (\<exists>r. getMagnitudeStats [quake ''x'' (Some 7) 0 (Some 70)] = Some r
         \<and> minor r = 0 \<and> light r = 0 \<and> moderate r = 0 \<and> strong r = 0 \<and> major r = 1)
   \<and> (\<exists>r. getDepthDistribution [quake ''x'' (Some 7) 0 (Some 70)] = Some r
         \<and> shallow r = 0 \<and> intermediate r = 1 \<and> deep r = 0)"
proof -
  have ne: "scenario_snapshot \<noteq> []" by (simp add: scenario_snapshot_def)
  have m: "length (filter (\<lambda>eq. mag eq \<noteq> None) scenario_snapshot) = 4"
    by (simp add: scenario_snapshot_def quake_def del: not_None_eq)
  have d: "length (filter (\<lambda>eq. depth eq \<noteq> None) scenario_snapshot) = 4"
    by (simp add: scenario_snapshot_def quake_def del: not_None_eq)
  have b: "shallow_band 10 \<and> \<not> intermediate_band 10 \<and> \<not> deep_band 10"
    using band_counts_partition [of scenario_snapshot] by simp
  have mc:
    "length (filter (\<lambda>eq. case mag eq of None \<Rightarrow> False | Some m \<Rightarrow> m < 4) scenario_snapshot) = 1"
    "length (filter (\<lambda>eq. case mag eq of None \<Rightarrow> False | Some m \<Rightarrow> 4 \<le> m \<and> m < 5)
       scenario_snapshot) = 1"
    "length (filter (\<lambda>eq. case mag eq of None \<Rightarrow> False | Some m \<Rightarrow> 5 \<le> m \<and> m < 6)
       scenario_snapshot) = 0"
    "length (filter (\<lambda>eq. case mag eq of None \<Rightarrow> False | Some m \<Rightarrow> 6 \<le> m \<and> m < 7)
       scenario_snapshot) = 1"
    "length (filter (\<lambda>eq. case mag eq of None \<Rightarrow> False | Some m \<Rightarrow> 7 \<le> m) scenario_snapshot) = 1"
    by (simp_all add: scenario_snapshot_def quake_def)
  have dc:
    "length (filter (\<lambda>eq. case depth eq of None \<Rightarrow> False | Some d \<Rightarrow> d < 70) scenario_snapshot) = 1"
    "length (filter (\<lambda>eq. case depth eq of None \<Rightarrow> False | Some d \<Rightarrow> 70 \<le> d \<and> d < 300)
       scenario_snapshot) = 2"
    "length (filter (\<lambda>eq. case depth eq of None \<Rightarrow> False | Some d \<Rightarrow> 300 \<le> d)
       scenario_snapshot) = 1"
    by (simp_all add: scenario_snapshot_def quake_def)
  have one: "[quake ''x'' (Some 7) 0 (Some 70)] \<noteq> []" by simp
  have oc:
    "length (filter (\<lambda>eq. case mag eq of None \<Rightarrow> False | Some m \<Rightarrow> m < 4)
       [quake ''x'' (Some 7) 0 (Some 70)]) = 0"
    "length (filter (\<lambda>eq. case mag eq of None \<Rightarrow> False | Some m \<Rightarrow> 4 \<le> m \<and> m < 5)
       [quake ''x'' (Some 7) 0 (Some 70)]) = 0"
    "length (filter (\<lambda>eq. case mag eq of None \<Rightarrow> False | Some m \<Rightarrow> 5 \<le> m \<and> m < 6)
       [quake ''x'' (Some 7) 0 (Some 70)]) = 0"
    "length (filter (\<lambda>eq. case mag eq of None \<Rightarrow> False | Some m \<Rightarrow> 6 \<le> m \<and> m < 7)
       [quake ''x'' (Some 7) 0 (Some 70)]) = 0"
    "length (filter (\<lambda>eq. case mag eq of None \<Rightarrow> False | Some m \<Rightarrow> 7 \<le> m)
       [quake ''x'' (Some 7) 0 (Some 70)]) = 1"
    "length (filter (\<lambda>eq. case depth eq of None \<Rightarrow> False | Some d \<Rightarrow> d < 70)
       [quake ''x'' (Some 7) 0 (Some 70)]) = 0"
    "length (filter (\<lambda>eq. case depth eq of None \<Rightarrow> False | Some d \<Rightarrow> 70 \<le> d \<and> d < 300)
       [quake ''x'' (Some 7) 0 (Some 70)]) = 1"
    "length (filter (\<lambda>eq. case depth eq of None \<Rightarrow> False | Some d \<Rightarrow> 300 \<le> d)
       [quake ''x'' (Some 7) 0 (Some 70)]) = 0"
    by (simp_all add: quake_def)
  have sums: "(\<exists>r. getMagnitudeStats scenario_snapshot = Some r
         \<and> minor r + light r + moderate r + strong r + major r = 4)
   \<and> (\<exists>r. getDepthDistribution scenario_snapshot = Some r
         \<and> shallow r + intermediate r + deep r = 4)"
    using band_counts_partition [of scenario_snapshot] ne m d by simp
  have counts: "(\<exists>r. getMagnitudeStats scenario_snapshot = Some r
         \<and> minor r = 1 \<and> light r = 1 \<and> moderate r = 0 \<and> strong r = 1 \<and> major r = 1)
   \<and> (\<exists>r. getDepthDistribution scenario_snapshot = Some r
         \<and> shallow r = 1 \<and> intermediate r = 2 \<and> deep r = 1)"
    using band_counts_partition [of scenario_snapshot] ne unfolding mc dc by blast
  have boundary: "(\<exists>r. getMagnitudeStats [quake ''x'' (Some 7) 0 (Some 70)] = Some r
         \<and> minor r = 0 \<and> light r = 0 \<and> moderate r = 0 \<and> strong r = 0 \<and> major r = 1)
   \<and> (\<exists>r. getDepthDistribution [quake ''x'' (Some 7) 0 (Some 70)] = Some r
         \<and> shallow r = 0 \<and> intermediate r = 1 \<and> deep r = 0)"
    using band_counts_partition [of "[quake ''x'' (Some 7) 0 (Some 70)]"] one
    unfolding oc by blast
  show ?thesis
    using ne b sums counts boundary by simp
qed

section \<open>Properties of the magnitude histogram\<close>

lemma half_open_join:
  fixes a b c :: real
  assumes "a \<le> b" "b \<le> c"
  shows "length (filter (\<lambda>x. a \<le> x \<and> x < b) xs) + length (filter (\<lambda>x. b \<le> x \<and> x < c) xs)
         = length (filter (\<lambda>x. a \<le> x \<and> x < c) xs)"
  using assms by (induction xs) auto

lemma closed_join:
  fixes a b c :: real
  assumes "a \<le> b" "b \<le> c"
  shows "length (filter (\<lambda>x. a \<le> x \<and> x < b) xs) + length (filter (\<lambda>x. b \<le> x \<and> x \<le> c) xs)
         = length (filter (\<lambda>x. a \<le> x \<and> x \<le> c) xs)"
  using assms by (induction xs) auto

lemma half_open_telescope:
  fixes lo w :: real
  assumes "0 \<le> w"
  shows "sum_list (map (\<lambda>i. length (filter (\<lambda>x. lo + real i * w \<le> x \<and> x < lo + real (Suc i) * w) xs))
                       [0..<k])
         = length (filter (\<lambda>x. lo \<le> x \<and> x < lo + real k * w) xs)"
proof (induction k)
  case 0
  have "\<And>x. \<not> (lo \<le> x \<and> x < lo)" by auto
  then show ?case by simp
next
  case (Suc k)
  have 1: "lo \<le> lo + real k * w" using assms by simp
  have 2: "lo + real k * w \<le> lo + real (Suc k) * w"
    using assms by (simp add: algebra_simps)
  show ?case
    using Suc half_open_join [OF 1 2, of xs] by simp
qed

lemma d3_bin_length: "length (d3_bin lo hi n xs) = n"
  by (simp add: d3_bin_def)

lemma d3_bin_nth:
  "i < n \<Longrightarrow> d3_bin lo hi n xs ! i =
     \<lparr>x0 = lo + real i * ((hi - lo) / real n), x1 = lo + real (Suc i) * ((hi - lo) / real n),
      members = filter (\<lambda>x. lo + real i * ((hi - lo) / real n) \<le> x
                  \<and> (x < lo + real (Suc i) * ((hi - lo) / real n)
                     \<or> (Suc i = n \<and> x \<le> lo + real (Suc i) * ((hi - lo) / real n)))) xs\<rparr>"
  by (simp add: d3_bin_def Let_def)

lemma d3_bin_counts:
  assumes "lo \<le> hi"
  shows "sum_list (map (\<lambda>b. length (members b)) (d3_bin lo hi (Suc n) xs))
         = length (filter (\<lambda>x. lo \<le> x \<and> x \<le> hi) xs)"
proof -
  let ?w = "(hi - lo) / real (Suc n)"
  let ?F = "\<lambda>i. length (filter (\<lambda>x. lo + real i * ?w \<le> x
               \<and> (x < lo + real (Suc i) * ?w \<or> (Suc i = Suc n \<and> x \<le> lo + real (Suc i) * ?w))) xs)"
  let ?G = "\<lambda>i. length (filter (\<lambda>x. lo + real i * ?w \<le> x \<and> x < lo + real (Suc i) * ?w) xs)"
  have w: "0 \<le> ?w" using assms by simp
  have top: "lo + real (Suc n) * ?w = hi" by simp
  have A: "sum_list (map (\<lambda>b. length (members b)) (d3_bin lo hi (Suc n) xs))
           = sum_list (map ?F [0..<Suc n])"
    by (simp add: d3_bin_def Let_def comp_def del: of_nat_Suc upt_Suc)
  have B: "sum_list (map ?F [0..<Suc n]) = sum_list (map ?F [0..<n]) + ?F n"
    by (simp del: of_nat_Suc)
  have C: "sum_list (map ?F [0..<n]) = sum_list (map ?G [0..<n])"
    by (rule arg_cong [where f = sum_list], rule map_cong [OF refl]) auto
  have D: "?F n = length (filter (\<lambda>x. lo + real n * ?w \<le> x \<and> x \<le> hi) xs)"
    unfolding top by (rule arg_cong [where f = length], rule filter_cong [OF refl]) auto
  have E: "sum_list (map ?G [0..<n]) = length (filter (\<lambda>x. lo \<le> x \<and> x < lo + real n * ?w) xs)"
    using half_open_telescope [OF w, of lo xs n] by simp
  have F: "length (filter (\<lambda>x. lo \<le> x \<and> x < lo + real n * ?w) xs)
        + length (filter (\<lambda>x. lo + real n * ?w \<le> x \<and> x \<le> hi) xs)
        = length (filter (\<lambda>x. lo \<le> x \<and> x \<le> hi) xs)"
  proof (rule closed_join)
    have nw: "0 \<le> real n * ?w" by (rule mult_nonneg_nonneg [OF _ w]) simp
    then show "lo \<le> lo + real n * ?w" by linarith
    have "real (Suc n) * ?w = ?w + real n * ?w" by (simp only: of_nat_Suc distrib_right mult_1)
    with w have "lo + real n * ?w \<le> lo + real (Suc n) * ?w" by linarith
    then show "lo + real n * ?w \<le> hi" unfolding top .
  qed
  show ?thesis
    unfolding A B C D E F ..
qed

lemma d3_bin_members_in_domain:
  assumes "lo \<le> hi" "b \<in> set (d3_bin lo hi n xs)" "x \<in> set (members b)"
  shows "lo \<le> x \<and> x \<le> hi"
proof -
  from assms(2) obtain i where i: "i < n"
    and b: "b = d3_bin lo hi n xs ! i"
    by (auto simp: in_set_conv_nth d3_bin_length)
  let ?w = "(hi - lo) / real n"
  have w: "0 \<le> ?w" using assms(1) by simp
  have n: "0 < real n" using i by simp
  have top: "lo + real n * ?w = hi" using n by simp
  from assms(3) have x: "lo + real i * ?w \<le> x" "x \<le> lo + real (Suc i) * ?w"
    unfolding b d3_bin_nth [OF i] by auto
  have "0 \<le> real i * ?w" by (rule mult_nonneg_nonneg [OF _ w]) simp
  then have "lo \<le> lo + real i * ?w" by linarith
  moreover have "real (Suc i) * ?w \<le> real n * ?w"
    using i w by (intro mult_right_mono) auto
  ultimately show ?thesis using x top by linarith
qed

lemma magnitude_bins_nth:
  "i < 20 \<Longrightarrow> x0 (d3_bin 0 10 20 ms ! i) = real i / 2 \<and> x1 (d3_bin 0 10 20 ms ! i) = real (Suc i) / 2
     \<and> members (d3_bin 0 10 20 ms ! i)
       = filter (\<lambda>m. real i / 2 \<le> m \<and> (m < real (Suc i) / 2 \<or> (i = 19 \<and> m \<le> 10))) ms"
  by (subst (1 2 3) d3_bin_nth) (auto intro!: filter_cong)

lemma bins_guard:
  "bins chart ld xs = (if chart \<and> \<not> ld \<and> xs \<noteq> [] then Some (d3_bin 0 10 20 (magnitudes_of xs))
                       else None)"
  by (simp add: bins_def Let_def)

text \<open>
  Claim C5, as stated, fails on the empty snapshot: with the chart mounted and the data
  loaded, the effect returns before the histogram, and there are no bins at all
  where the claim has 20 of them.
\<close>

theorem bins_empty_snapshot:
  "bins True False [] = None"
  by (simp add: bins_def)

text \<open>
  Claim C5, amended. On every snapshot that is not empty, with the chart mounted and
  the data loaded, there are 20 bins; bin \<open>i\<close> runs from \<open>i / 2\<close> to
  \<open>(i + 1) / 2\<close> and holds the magnitudes that are not null and lie in that half-open
  interval, the last bin also holding the magnitude 10; the sizes of the bins add up
  to the number of events whose magnitude is not null and lies in [0, 10]; and no bin
  holds a magnitude outside [0, 10]. On the empty snapshot, while loading, or without
  the chart element, no bins are computed.
\<close>

theorem bins_histogram:
  "(chart \<and> \<not> ld \<and> snapshot \<noteq> [] \<longrightarrow>
      (\<exists>bs. bins chart ld snapshot = Some bs
         \<and> length bs = 20
         \<and> (\<forall>i<20. x0 (bs ! i) = real i / 2 \<and> x1 (bs ! i) = real (Suc i) / 2
                \<and> members (bs ! i)
                  = filter (\<lambda>m. real i / 2 \<le> m \<and> (m < real (Suc i) / 2 \<or> (i = 19 \<and> m \<le> 10)))
                      (magnitudes_of snapshot))
         \<and> sum_list (map (\<lambda>b. length (members b)) bs)
             = length (filter (\<lambda>eq. case mag eq of None \<Rightarrow> False | Some m \<Rightarrow> 0 \<le> m \<and> m \<le> 10)
                 snapshot)
         \<and> (\<forall>b\<in>set bs. \<forall>m\<in>set (members b). 0 \<le> m \<and> m \<le> 10)))
   \<and> (\<not> chart \<or> ld \<or> snapshot = [] \<longrightarrow> bins chart ld snapshot = None)"
proof -
  let ?bs = "d3_bin 0 10 20 (magnitudes_of snapshot)"
  have len: "length ?bs = 20"
    by (simp add: d3_bin_length)
  have total: "sum_list (map (\<lambda>b. length (members b)) ?bs)
       = length (filter (\<lambda>eq. case mag eq of None \<Rightarrow> False | Some m \<Rightarrow> 0 \<le> m \<and> m \<le> 10)
           snapshot)"
    using d3_bin_counts [of 0 10 19 "magnitudes_of snapshot"]
    by (simp add: length_filter_magnitudes_of)
  have inside: "\<forall>b\<in>set ?bs. \<forall>m\<in>set (members b). 0 \<le> m \<and> m \<le> 10"
    using d3_bin_members_in_domain [of 0 10 _ 20 "magnitudes_of snapshot"]
    by auto
  have nth: "\<forall>i<20. x0 (?bs ! i) = real i / 2 \<and> x1 (?bs ! i) = real (Suc i) / 2
                \<and> members (?bs ! i)
                  = filter (\<lambda>m. real i / 2 \<le> m \<and> (m < real (Suc i) / 2 \<or> (i = 19 \<and> m \<le> 10)))
                      (magnitudes_of snapshot)"
    using magnitude_bins_nth [of _ "magnitudes_of snapshot"] by blast
  have some: "chart \<and> \<not> ld \<and> snapshot \<noteq> [] \<longrightarrow> bins chart ld snapshot = Some ?bs"
    by (simp add: bins_guard)
  have none: "\<not> chart \<or> ld \<or> snapshot = [] \<longrightarrow> bins chart ld snapshot = None"
    by (auto simp: bins_guard)
  show ?thesis
    using len total inside nth some none by blast
qed

theorem bins_histogram_witness:
  "histogram_snapshot \<noteq> []
   \<and> (\<exists>bs. bins True False histogram_snapshot = Some bs
         \<and> length bs = 20
         \<and> x0 (bs ! 19) = 19 / 2 \<and> x1 (bs ! 19) = 10
         \<and> members (bs ! 19) = [10]
         \<and> members (bs ! 13) = [6.9]
         \<and> sum_list (map (\<lambda>b. length (members b)) bs) = 5)
   \<and> bins True True histogram_snapshot = None"
proof -
  have ne: "histogram_snapshot \<noteq> []"
    by (simp add: histogram_snapshot_def)
  have m: "magnitudes_of histogram_snapshot = [3.2, 4.5, 6.9, 7.1, 10, 11, - 1]"
    by (simp add: histogram_snapshot_def scenario_snapshot_def quake_def magnitudes_of_def
        del: not_None_eq)
  have c: "length (filter (\<lambda>eq. case mag eq of None \<Rightarrow> False | Some m \<Rightarrow> 0 \<le> m \<and> m \<le> 10)
           histogram_snapshot) = 5"
    by (simp add: histogram_snapshot_def scenario_snapshot_def quake_def)
  from bins_histogram [of True False histogram_snapshot] ne
  obtain bs where bs: "bins True False histogram_snapshot = Some bs" "length bs = 20"
    and nth: "\<forall>i<20. x0 (bs ! i) = real i / 2 \<and> x1 (bs ! i) = real (Suc i) / 2
                \<and> members (bs ! i)
                  = filter (\<lambda>m. real i / 2 \<le> m \<and> (m < real (Suc i) / 2 \<or> (i = 19 \<and> m \<le> 10)))
                      (magnitudes_of histogram_snapshot)"
    and total: "sum_list (map (\<lambda>b. length (members b)) bs)
       = length (filter (\<lambda>eq. case mag eq of None \<Rightarrow> False | Some m \<Rightarrow> 0 \<le> m \<and> m \<le> 10)
           histogram_snapshot)"
    by blast
  have "(19::nat) < 20" "(13::nat) < 20" by simp_all
  with nth have
    "x0 (bs ! 19) = real 19 / 2" "x1 (bs ! 19) = real (Suc 19) / 2"
    "members (bs ! 19)
       = filter (\<lambda>m. real 19 / 2 \<le> m \<and> (m < real (Suc 19) / 2 \<or> ((19::nat) = 19 \<and> m \<le> 10)))
           (magnitudes_of histogram_snapshot)"
    "members (bs ! 13)
       = filter (\<lambda>m. real 13 / 2 \<le> m \<and> (m < real (Suc 13) / 2 \<or> ((13::nat) = 19 \<and> m \<le> 10)))
           (magnitudes_of histogram_snapshot)"
    by blast+
  then have vals: "x0 (bs ! 19) = 19 / 2" "x1 (bs ! 19) = 10" "members (bs ! 19) = [10]"
    "members (bs ! 13) = [6.9]"
    unfolding m by simp_all
  have loadingNone: "bins True True histogram_snapshot = None"
    using bins_histogram [of True True histogram_snapshot] by simp
  show ?thesis
    using ne bs vals total c loadingNone by simp
qed

section \<open>Properties of the hourly activity\<close>




















section \<open>Properties of the fetch and of the refresh cycle\<close>

lemma fetchEarthquakeData_eq:
  "fetchEarthquakeData now outcome s =
     fetch_settle outcome
       (s\<lparr>loading := True, console := console s @ [Log_fetching (buildUSGSQuery now (filters s))]\<rparr>)"
  by (simp add: fetchEarthquakeData_def fetch_start_def Let_def)

lemma fetch_settle_fields:
  "earthquakeData (fetch_settle outcome s) = snapshot_of outcome"
  "loading (fetch_settle outcome s) = False"
  "filters (fetch_settle outcome s) = filters s"
  "inflight (fetch_settle outcome s) = inflight s"
  by (simp_all add: fetch_settle_def snapshot_of_def split: prod.splits sum.splits)

lemma fetch_settle_console_failure:
  "try_block outcome = (logs, Inl e) \<Longrightarrow>
     console (fetch_settle outcome s) = console s @ logs @ [Log_error e]"
  by (simp add: fetch_settle_def)

text \<open>
  Claim C8. When the request is rejected or the response is not ok, the call still
  returns: the Snapshot is the empty list, loading is over, the filters are as they
  were, and the console has the error after the line of the query. When the response
  is ok and its body has no \<open>features\<close>, the Snapshot is the empty list; when it has
  them, the Snapshot is that list.
\<close>

theorem fetch_failure_empties_snapshot:
  "(outcome = NetworkError \<or> outcome = Response False status body \<longrightarrow>
      earthquakeData (fetchEarthquakeData now outcome s) = []
      \<and> loading (fetchEarthquakeData now outcome s) = False
      \<and> filters (fetchEarthquakeData now outcome s) = filters s
      \<and> inflight (fetchEarthquakeData now outcome s) = inflight s
      \<and> console (fetchEarthquakeData now outcome s)
          = console s @ [Log_fetching (buildUSGSQuery now (filters s)),
                         Log_error (if outcome = NetworkError then FetchError
                                    else HttpError status)])
   \<and> earthquakeData (fetchEarthquakeData now (Response True status (JsonObject None)) s) = []
   \<and> loading (fetchEarthquakeData now (Response True status (JsonObject None)) s) = False
   \<and> earthquakeData (fetchEarthquakeData now (Response True status (JsonObject (Some fs))) s) = fs"
  by (auto simp: fetchEarthquakeData_eq fetch_settle_fields snapshot_of_def
      fetch_settle_console_failure)

theorem fetch_failure_empties_snapshot_witness:
  "earthquakeData (fetchEarthquakeData 1000 NetworkError idle_state) = []
   \<and> earthquakeData (fetchEarthquakeData 1000 (Response False 503 Unparsable) idle_state) = []
   \<and> console (fetchEarthquakeData 1000 (Response False 503 Unparsable) idle_state)
       = [Log_fetching (buildUSGSQuery 1000 initial_filters), Log_error (HttpError 503)]
   \<and> loading (fetchEarthquakeData 1000 (Response False 503 Unparsable) idle_state) = False
   \<and> earthquakeData idle_state \<noteq> []"
  using fetch_failure_empties_snapshot [of NetworkError 0 Unparsable 1000 idle_state]
    fetch_failure_empties_snapshot [of "Response False 503 Unparsable" 503 Unparsable 1000 idle_state]
  by (simp add: idle_state_def scenario_snapshot_def)

lemma run_append: "run (evs @ evs') s = run evs' (run evs s)"
  by (simp add: run_def)

lemma run_Cons: "run (ev # evs) s = run evs (step ev s)"
  by (simp add: run_def)

lemma run_Nil: "run [] s = s"
  by (simp add: run_def)

lemma fetch_start_fields:
  "earthquakeData (fetch_start now s) = earthquakeData s"
  "filters (fetch_start now s) = filters s"
  "inflight (fetch_start now s) = inflight s @ [buildUSGSQuery now (filters s)]"
  by (simp_all add: fetch_start_def Let_def)

lemma step_not_Settle:
  "(\<forall>j out. ev \<noteq> Settle j out) \<Longrightarrow> earthquakeData (step ev s) = earthquakeData s"
  by (cases ev) (simp_all add: fetch_start_fields)

lemma run_not_Settle:
  "(\<forall>ev\<in>set evs. \<forall>j out. ev \<noteq> Settle j out) \<Longrightarrow>
     earthquakeData (run evs s) = earthquakeData s"
proof (induction evs arbitrary: s)
  case Nil
  then show ?case by (simp add: run_Nil)
next
  case (Cons ev evs)
  then show ?case by (simp add: run_Cons step_not_Settle)
qed

lemma step_Settle:
  "i < length (inflight s) \<Longrightarrow>
     earthquakeData (step (Settle i outcome) s) = snapshot_of outcome
     \<and> filters (step (Settle i outcome) s) = filters s"
  by (simp add: fetch_settle_fields)

text \<open>
  Claim C9, as stated, fails. The page is mounted with the day filters at clock 0 and
  the time range is changed to a week at clock 1000, so that two requests are in
  flight. The request of the week filters settles first, and the Snapshot is its
  result. Then the request of the day filters settles: the Snapshot is now the result
  of the stale request, the filters are still the week filters, and nothing is in
  flight any more.
\<close>

theorem stale_fetch_overwrites:
  "inflight (run [UpdateFilter ''timeRange'' (JString ''week'') 1000] (mount 0))
     = [buildUSGSQuery 0 initial_filters, buildUSGSQuery 1000 week_filters]
   \<and> earthquakeData
       (run [UpdateFilter ''timeRange'' (JString ''week'') 1000, Settle 1 week_response] (mount 0))
     = snapshot_of week_response
   \<and> earthquakeData
       (run [UpdateFilter ''timeRange'' (JString ''week'') 1000, Settle 1 week_response,
             Settle 0 day_response] (mount 0))
     = snapshot_of day_response
   \<and> filters
       (run [UpdateFilter ''timeRange'' (JString ''week'') 1000, Settle 1 week_response,
             Settle 0 day_response] (mount 0))
     = week_filters
   \<and> inflight
       (run [UpdateFilter ''timeRange'' (JString ''week'') 1000, Settle 1 week_response,
             Settle 0 day_response] (mount 0))
     = []
   \<and> snapshot_of day_response \<noteq> snapshot_of week_response"
  by (simp add: run_def mount_def fetch_start_def fetch_settle_def Let_def updateFilter_def
      week_filters_def snapshot_of_def day_response_def week_response_def quake_def)

lemma step_not_Settle_inflight:
  "(\<forall>j out. ev \<noteq> Settle j out) \<Longrightarrow>
     length (inflight (step ev s)) = Suc (length (inflight s))
     \<and> take (length (inflight s)) (inflight (step ev s)) = inflight s"
  by (cases ev) (simp_all add: fetch_start_fields)

lemma run_not_Settle_inflight:
  "(\<forall>ev\<in>set evs. \<forall>j out. ev \<noteq> Settle j out) \<Longrightarrow>
     length (inflight (run evs s)) = length (inflight s) + length evs
     \<and> take (length (inflight s)) (inflight (run evs s)) = inflight s"
proof (induction evs arbitrary: s)
  case Nil
  then show ?case by (simp add: run_Nil)
next
  case (Cons ev evs)
  from Cons.prems have ev: "\<forall>j out. ev \<noteq> Settle j out"
    and evs: "\<forall>ev\<in>set evs. \<forall>j out. ev \<noteq> Settle j out"
    by simp_all
  note st = step_not_Settle_inflight [OF ev, of s]
  note ih = Cons.IH [OF evs, of "step ev s"]
  have len: "length (inflight (run (ev # evs) s)) = length (inflight s) + length (ev # evs)"
    using st ih by (simp add: run_Cons)
  have "take (length (inflight s)) (inflight (run evs (step ev s)))
      = take (length (inflight s)) (take (length (inflight (step ev s))) (inflight (run evs (step ev s))))"
    using st by (simp add: min_def)
  also have "\<dots> = take (length (inflight s)) (inflight (step ev s))"
    using ih by simp
  also have "\<dots> = inflight s" using st by simp
  finally show ?case using len by (simp add: run_Cons)
qed

lemma step_Settle_inflight:
  "i < length (inflight s) \<Longrightarrow>
     inflight (step (Settle i outcome) s) = take i (inflight s) @ drop (Suc i) (inflight s)"
  by (simp add: fetch_settle_fields)

text \<open>
  Claim C9, amended. A filter change or a tick starts one more request and leaves the
  Snapshot and every request already in flight as they are: none is cancelled, none
  is marked. A request that settles replaces the Snapshot with its own result,
  whatever filters it was issued under and whatever the filters are now, leaves the
  filters as they are, and leaves the other requests in flight. So a request in flight
  is still in flight after any number of filter changes and ticks, its settling then
  overwrites the Snapshot, and the Snapshot is always the result of the request that
  settled last.
\<close>

theorem snapshot_is_last_settled:
  assumes "i < length (inflight (run evs s))"
    and "\<forall>ev\<in>set evs'. \<forall>j out. ev \<noteq> Settle j out"
  shows "earthquakeData (run (evs @ Settle i outcome # evs') s) = snapshot_of outcome
         \<and> filters (run (evs @ [Settle i outcome]) s) = filters (run evs s)
         \<and> inflight (run (evs @ [Settle i outcome]) s)
             = take i (inflight (run evs s)) @ drop (Suc i) (inflight (run evs s))
         \<and> earthquakeData (run (evs @ evs') s) = earthquakeData (run evs s)
         \<and> length (inflight (run (evs @ evs') s)) = length (inflight (run evs s)) + length evs'
         \<and> take (length (inflight (run evs s))) (inflight (run (evs @ evs') s))
             = inflight (run evs s)
         \<and> i < length (inflight (run (evs @ evs') s))
         \<and> inflight (run (evs @ evs') s) ! i = inflight (run evs s) ! i
         \<and> earthquakeData (run (evs @ evs' @ [Settle i outcome]) s) = snapshot_of outcome
         \<and> filters (run (evs @ evs' @ [Settle i outcome]) s) = filters (run (evs @ evs') s)
         \<and> inflight (step (UpdateFilter key v now) s0)
             = inflight s0 @ [buildUSGSQuery now (updateFilter key v (filters s0))]
         \<and> inflight (step (IntervalTick now) s0) = inflight s0 @ [buildUSGSQuery now (filters s0)]
         \<and> earthquakeData (step (UpdateFilter key v now) s0) = earthquakeData s0
         \<and> earthquakeData (step (IntervalTick now) s0) = earthquakeData s0
         \<and> filters (step (UpdateFilter key v now) s0) = updateFilter key v (filters s0)
         \<and> filters (step (IntervalTick now) s0) = filters s0"
proof -
  let ?s = "run evs s"
  note pre = run_not_Settle_inflight [OF assms(2), of ?s]
  have 1: "earthquakeData (run (evs @ Settle i outcome # evs') s) = snapshot_of outcome"
    using assms
    by (simp add: run_append run_Cons run_Nil run_not_Settle step_Settle del: step.simps)
  have 2: "filters (run (evs @ [Settle i outcome]) s) = filters ?s"
    using assms(1) by (simp add: run_append run_Cons run_Nil step_Settle del: step.simps)
  have 3: "inflight (run (evs @ [Settle i outcome]) s)
             = take i (inflight ?s) @ drop (Suc i) (inflight ?s)"
    using assms(1)
    by (simp add: run_append run_Cons run_Nil step_Settle_inflight del: step.simps)
  have 4: "earthquakeData (run (evs @ evs') s) = earthquakeData ?s"
    using assms(2) by (simp add: run_append run_not_Settle)
  have 5: "length (inflight (run (evs @ evs') s)) = length (inflight ?s) + length evs'"
    using pre by (simp add: run_append)
  have 6: "take (length (inflight ?s)) (inflight (run (evs @ evs') s)) = inflight ?s"
    using pre by (simp add: run_append)
  have 7: "i < length (inflight (run (evs @ evs') s))"
    using 5 assms(1) by simp
  have "inflight (run (evs @ evs') s) ! i
      = take (length (inflight ?s)) (inflight (run (evs @ evs') s)) ! i"
    using assms(1) by simp
  then have 8: "inflight (run (evs @ evs') s) ! i = inflight ?s ! i"
    unfolding 6 .
  have run3: "run (evs @ evs' @ [Settle i outcome]) s
      = step (Settle i outcome) (run (evs @ evs') s)"
    by (simp add: run_append run_Cons run_Nil del: step.simps)
  have 9: "earthquakeData (run (evs @ evs' @ [Settle i outcome]) s) = snapshot_of outcome"
    unfolding run3 using step_Settle [OF 7] by blast
  have 10: "filters (run (evs @ evs' @ [Settle i outcome]) s) = filters (run (evs @ evs') s)"
    unfolding run3 using step_Settle [OF 7] by blast
  have 11: "inflight (step (UpdateFilter key v now) s0)
             = inflight s0 @ [buildUSGSQuery now (updateFilter key v (filters s0))]"
    "inflight (step (IntervalTick now) s0) = inflight s0 @ [buildUSGSQuery now (filters s0)]"
    "earthquakeData (step (UpdateFilter key v now) s0) = earthquakeData s0"
    "earthquakeData (step (IntervalTick now) s0) = earthquakeData s0"
    "filters (step (UpdateFilter key v now) s0) = updateFilter key v (filters s0)"
    "filters (step (IntervalTick now) s0) = filters s0"
    by (simp_all add: fetch_start_fields)
  show ?thesis
    using 1 2 3 4 5 6 7 8 9 10 11 by blast
qed

theorem snapshot_is_last_settled_witness:
  "(0::nat) < length (inflight
       (run [UpdateFilter ''timeRange'' (JString ''week'') 1000, Settle 1 week_response] (mount 0)))
   \<and> earthquakeData
       (run ([UpdateFilter ''timeRange'' (JString ''week'') 1000, Settle 1 week_response]
             @ Settle 0 day_response # [IntervalTick 300000]) (mount 0))
     = [quake ''day'' (Some 2) 500 (Some 10)]
   \<and> (0::nat) < length (inflight (run [] (mount 0)))
   \<and> inflight (run ([] @ [UpdateFilter ''timeRange'' (JString ''week'') 1000,
                          IntervalTick 300000]) (mount 0)) ! 0
     = buildUSGSQuery 0 initial_filters
   \<and> length (inflight (run ([] @ [UpdateFilter ''timeRange'' (JString ''week'') 1000,
                                  IntervalTick 300000]) (mount 0))) = 3
   \<and> earthquakeData
       (run ([] @ [UpdateFilter ''timeRange'' (JString ''week'') 1000, IntervalTick 300000]
             @ [Settle 0 day_response]) (mount 0))
     = [quake ''day'' (Some 2) 500 (Some 10)]
   \<and> filters
       (run ([] @ [UpdateFilter ''timeRange'' (JString ''week'') 1000, IntervalTick 300000]
             @ [Settle 0 day_response]) (mount 0))
     = week_filters"
proof -
  have a: "(0::nat) < length (inflight
       (run [UpdateFilter ''timeRange'' (JString ''week'') 1000, Settle 1 week_response] (mount 0)))"
    by (simp add: run_def mount_def fetch_start_def fetch_settle_def Let_def week_response_def
        split: prod.splits sum.splits)
  have b: "\<forall>ev\<in>set [IntervalTick 300000]. \<forall>j out. ev \<noteq> Settle j out"
    by simp
  have c: "snapshot_of day_response = [quake ''day'' (Some 2) 500 (Some 10)]"
    by (simp add: snapshot_of_def day_response_def)
  have first: "earthquakeData
       (run ([UpdateFilter ''timeRange'' (JString ''week'') 1000, Settle 1 week_response]
             @ Settle 0 day_response # [IntervalTick 300000]) (mount 0))
     = [quake ''day'' (Some 2) 500 (Some 10)]"
    using snapshot_is_last_settled [OF a b, of day_response] c by simp
  have m: "inflight (run [] (mount 0)) = [buildUSGSQuery 0 initial_filters]"
    by (simp add: run_def mount_def fetch_start_def Let_def)
  have a': "(0::nat) < length (inflight (run [] (mount 0)))"
    unfolding m by simp
  have b': "\<forall>ev\<in>set [UpdateFilter ''timeRange'' (JString ''week'') 1000, IntervalTick 300000].
      \<forall>j out. ev \<noteq> Settle j out"
    by simp
  have f: "filters (run ([] @ [UpdateFilter ''timeRange'' (JString ''week'') 1000,
                             IntervalTick 300000]) (mount 0)) = week_filters"
    by (simp add: run_def mount_def fetch_start_def Let_def updateFilter_def week_filters_def)
  note second = snapshot_is_last_settled [OF a' b', of day_response]
  have s1: "inflight (run ([] @ [UpdateFilter ''timeRange'' (JString ''week'') 1000,
                          IntervalTick 300000]) (mount 0)) ! 0
     = buildUSGSQuery 0 initial_filters"
    using second unfolding m by simp
  have s2: "length (inflight (run ([] @ [UpdateFilter ''timeRange'' (JString ''week'') 1000,
                                  IntervalTick 300000]) (mount 0))) = 3"
    using second unfolding m by simp
  have s3: "earthquakeData
       (run ([] @ [UpdateFilter ''timeRange'' (JString ''week'') 1000, IntervalTick 300000]
             @ [Settle 0 day_response]) (mount 0))
     = [quake ''day'' (Some 2) 500 (Some 10)]"
    using second unfolding c by blast
  have s4: "filters
       (run ([] @ [UpdateFilter ''timeRange'' (JString ''week'') 1000, IntervalTick 300000]
             @ [Settle 0 day_response]) (mount 0))
     = week_filters"
    using second unfolding f by blast
  show ?thesis
    using a first a' s1 s2 s3 s4 by blast
qed

end
